theory Spec2Isabelle
  imports Main "HOL-Library.Word"
begin

unbundle bit_operations_syntax

section \<open>bcinfo::MetadataExtractor (libbcc/include/bcinfo/MetadataExtractor.h)\<close>

text \<open>
  The header declares the class \<open>MetadataExtractor\<close>: its private fields, the inline
  accessors, six inline static predicates on ForEach signatures, and the prototypes of
  the constructors, of \<open>extract()\<close> and of the five \<open>populate...\<close> helpers. The inline
  functions are embedded from their bodies. The bodies of the constructors, of
  \<open>extract()\<close> and of the helpers are in no source file at hand; they are modelled from
  the specification and every such definition says so.
\<close>

subsection \<open>Machine types\<close>

type_synonym u8 = "8 word"
type_synonym u32 = "32 word"

text \<open>
  \<open>enum RSFloatPrecision { RS_FP_Full = 0, RS_FP_Relaxed = 1 }\<close>
\<close>

datatype RSFloatPrecision = RS_FP_Full | RS_FP_Relaxed

fun RSFloatPrecision_value :: "RSFloatPrecision \<Rightarrow> u32" where
  "RSFloatPrecision_value RS_FP_Full = 0"
| "RSFloatPrecision_value RS_FP_Relaxed = 1"

subsection \<open>ForEach signature predicates\<close>

text \<open>
  Each predicate is \<open>static bool f(uint32_t sig) { return sig & MASK; }\<close>. The literal
  mask is an \<open>int\<close>; the usual arithmetic conversions make the conjunction a 32-bit
  unsigned value, and the return statement converts it to \<open>bool\<close>: zero is \<open>false\<close>,
  every other value is \<open>true\<close>.
\<close>

definition bool_of_u32 :: "u32 \<Rightarrow> bool" where
  "bool_of_u32 w = (w \<noteq> 0)"

definition hasForEachSignatureIn :: "u32 \<Rightarrow> bool" where
  "hasForEachSignatureIn sig = bool_of_u32 (sig AND 0x01)"

definition hasForEachSignatureOut :: "u32 \<Rightarrow> bool" where
  "hasForEachSignatureOut sig = bool_of_u32 (sig AND 0x02)"

definition hasForEachSignatureUsrData :: "u32 \<Rightarrow> bool" where
  "hasForEachSignatureUsrData sig = bool_of_u32 (sig AND 0x04)"

definition hasForEachSignatureX :: "u32 \<Rightarrow> bool" where
  "hasForEachSignatureX sig = bool_of_u32 (sig AND 0x08)"

definition hasForEachSignatureY :: "u32 \<Rightarrow> bool" where
  "hasForEachSignatureY sig = bool_of_u32 (sig AND 0x10)"

definition hasForEachSignatureKernel :: "u32 \<Rightarrow> bool" where
  "hasForEachSignatureKernel sig = bool_of_u32 (sig AND 0x20)"

subsection \<open>Named metadata of a module\<close>

text \<open>
  \<open>llvm::Module\<close> and \<open>llvm::NamedMDNode\<close> are only forward-declared in the header.

  Modelled from the spec: the module abstraction of the external bitcode library, which
  the header does not define. A named metadata collection is a sequence of operands;
  an operand is a string constant or an integer constant, and a pragma entry is a
  key/value pair of strings. Any other shape is representable too (\<open>MDTuple\<close> of any
  operands), so that malformed nodes are inputs of the model. A module offers the lookup
  of the five categories (the ForEach category has two nodes, names and signatures) and
  of the three scalar entries; a lookup that finds nothing is \<open>None\<close>.
\<close>

datatype md_operand = MDString string | MDInt u32 | MDTuple "md_operand list"

type_synonym NamedMDNode = "md_operand list"

record Module =
  export_var_md :: "NamedMDNode option"
  export_func_md :: "NamedMDNode option"
  export_foreach_name_md :: "NamedMDNode option"
  export_foreach_md :: "NamedMDNode option"
  pragma_md :: "NamedMDNode option"
  object_slot_md :: "NamedMDNode option"
  compiler_version_md :: "u32 option"
  optimization_level_md :: "u32 option"
  float_precision_md :: "RSFloatPrecision option"

subsection \<open>The fields of the class\<close>

text \<open>
  The private fields, in the header's order. A pointer to a module or to the bitcode is
  an \<open>option\<close> (\<open>None\<close> is the null pointer); \<open>size_t\<close> counts are natural numbers;
  an array reached through a \<open>const char **\<close> or a \<open>const uint32_t *\<close> is the list of
  its elements, the null pointer being the empty list.
\<close>

record MetadataExtractor =
  mModule :: "Module option"
  mBitcode :: "u8 list option"
  mBitcodeSize :: nat
  mExportVarCount :: nat
  mExportFuncCount :: nat
  mExportForEachSignatureCount :: nat
  mExportVarNameList :: "string list"
  mExportFuncNameList :: "string list"
  mExportForEachNameList :: "string list"
  mExportForEachSignatureList :: "u32 list"
  mPragmaCount :: nat
  mPragmaKeyList :: "string list"
  mPragmaValueList :: "string list"
  mObjectSlotCount :: nat
  mObjectSlotList :: "u32 list"
  mCompilerVersion :: u32
  mOptimizationLevel :: u32
  mRSFloatPrecision :: RSFloatPrecision

subsection \<open>Accessors\<close>

text \<open>The inline getters of the header: each returns its field.\<close>

definition getExportVarCount :: "MetadataExtractor \<Rightarrow> nat" where
  "getExportVarCount x = mExportVarCount x"

definition getExportVarNameList :: "MetadataExtractor \<Rightarrow> string list" where
  "getExportVarNameList x = mExportVarNameList x"

definition getExportFuncCount :: "MetadataExtractor \<Rightarrow> nat" where
  "getExportFuncCount x = mExportFuncCount x"

definition getExportFuncNameList :: "MetadataExtractor \<Rightarrow> string list" where
  "getExportFuncNameList x = mExportFuncNameList x"

definition getExportForEachSignatureCount :: "MetadataExtractor \<Rightarrow> nat" where
  "getExportForEachSignatureCount x = mExportForEachSignatureCount x"

definition getExportForEachSignatureList :: "MetadataExtractor \<Rightarrow> u32 list" where
  "getExportForEachSignatureList x = mExportForEachSignatureList x"

definition getExportForEachNameList :: "MetadataExtractor \<Rightarrow> string list" where
  "getExportForEachNameList x = mExportForEachNameList x"

definition getPragmaCount :: "MetadataExtractor \<Rightarrow> nat" where
  "getPragmaCount x = mPragmaCount x"

definition getPragmaKeyList :: "MetadataExtractor \<Rightarrow> string list" where
  "getPragmaKeyList x = mPragmaKeyList x"

definition getPragmaValueList :: "MetadataExtractor \<Rightarrow> string list" where
  "getPragmaValueList x = mPragmaValueList x"

definition getObjectSlotCount :: "MetadataExtractor \<Rightarrow> nat" where
  "getObjectSlotCount x = mObjectSlotCount x"

definition getObjectSlotList :: "MetadataExtractor \<Rightarrow> u32 list" where
  "getObjectSlotList x = mObjectSlotList x"

definition getCompilerVersion :: "MetadataExtractor \<Rightarrow> u32" where
  "getCompilerVersion x = mCompilerVersion x"

definition getOptimizationLevel :: "MetadataExtractor \<Rightarrow> u32" where
  "getOptimizationLevel x = mOptimizationLevel x"

definition getRSFloatPrecision :: "MetadataExtractor \<Rightarrow> RSFloatPrecision" where
  "getRSFloatPrecision x = mRSFloatPrecision x"

subsection \<open>Constructors\<close>

text \<open>
  Modelled from the spec: the bodies of the two constructors, which the header only
  declares. An instance is constructed empty, over exactly one backing representation:
  the raw bitcode and its size, or a borrowed module. Counts and scalars are 0, the
  precision is Full, the tables are empty.
\<close>

definition emptyTables :: "Module option \<Rightarrow> u8 list option \<Rightarrow> nat \<Rightarrow> MetadataExtractor" where
  "emptyTables m b n =
     \<lparr> mModule = m, mBitcode = b, mBitcodeSize = n,
       mExportVarCount = 0, mExportFuncCount = 0, mExportForEachSignatureCount = 0,
       mExportVarNameList = [], mExportFuncNameList = [],
       mExportForEachNameList = [], mExportForEachSignatureList = [],
       mPragmaCount = 0, mPragmaKeyList = [], mPragmaValueList = [],
       mObjectSlotCount = 0, mObjectSlotList = [],
       mCompilerVersion = 0, mOptimizationLevel = 0,
       mRSFloatPrecision = RS_FP_Full \<rparr>"

definition MetadataExtractor_bitcode :: "u8 list option \<Rightarrow> nat \<Rightarrow> MetadataExtractor" where
  "MetadataExtractor_bitcode bitcode bitcodeSize = emptyTables None bitcode bitcodeSize"

definition MetadataExtractor_module :: "Module option \<Rightarrow> MetadataExtractor" where
  "MetadataExtractor_module module = emptyTables module None 0"

subsection \<open>Extraction\<close>

text \<open>
  Modelled from the spec: the readers of one operand. A name is expected to be a string
  constant, a signature or an object slot an integer constant, a pragma a pair of a key
  string and a value string; \<open>None\<close> is an operand of an unexpected kind.
\<close>

fun getStringOperand :: "md_operand \<Rightarrow> string option" where
  "getStringOperand (MDString s) = Some s"
| "getStringOperand _ = None"

fun getIntOperand :: "md_operand \<Rightarrow> u32 option" where
  "getIntOperand (MDInt v) = Some v"
| "getIntOperand _ = None"

fun getPragmaOperand :: "md_operand \<Rightarrow> (string \<times> string) option" where
  "getPragmaOperand (MDTuple [MDString k, MDString v]) = Some (k, v)"
| "getPragmaOperand _ = None"

text \<open>
  Modelled from the spec: the loop that copies the operands of a node into an owned
  table, in order, and gives up at the first operand of an unexpected kind.
\<close>

fun copyOperands :: "(md_operand \<Rightarrow> 'a option) \<Rightarrow> md_operand list \<Rightarrow> 'a list option" where
  "copyOperands rd [] = Some []"
| "copyOperands rd (e # es) =
     (case rd e of
        None \<Rightarrow> None
      | Some v \<Rightarrow> (case copyOperands rd es of None \<Rightarrow> None | Some vs \<Rightarrow> Some (v # vs)))"

text \<open>
  Modelled from the spec: a category that is absent from the module yields a table of
  length zero, as a node with no operand does.
\<close>

definition getOperands :: "NamedMDNode option \<Rightarrow> md_operand list" where
  "getOperands node = (case node of None \<Rightarrow> [] | Some es \<Rightarrow> es)"

text \<open>
  Modelled from the spec: the bodies of the five \<open>populate...\<close> helpers, which the header
  only declares. The result \<open>None\<close> is the helper reporting failure; \<open>Some\<close> carries the
  instance with the helper's table and count written. The count is the number of
  operands of the node and the table holds what was copied from them.
  \<open>populateForEachMetadata\<close> fails when the names node and the signatures node differ in
  length. The header declares \<open>populatePragmaMetadata\<close> with no result, while the spec
  makes a pragma entry that is not a key/value pair a failure of \<open>extract()\<close>: the model
  reports it through the same \<open>None\<close>.
\<close>

definition populateVarNameMetadata ::
  "NamedMDNode option \<Rightarrow> MetadataExtractor \<Rightarrow> MetadataExtractor option" where
  "populateVarNameMetadata VarNameMetadata x =
     (case copyOperands getStringOperand (getOperands VarNameMetadata) of
        None \<Rightarrow> None
      | Some names \<Rightarrow>
          Some (x\<lparr> mExportVarCount := length (getOperands VarNameMetadata),
                   mExportVarNameList := names \<rparr>))"

definition populateFuncNameMetadata ::
  "NamedMDNode option \<Rightarrow> MetadataExtractor \<Rightarrow> MetadataExtractor option" where
  "populateFuncNameMetadata FuncNameMetadata x =
     (case copyOperands getStringOperand (getOperands FuncNameMetadata) of
        None \<Rightarrow> None
      | Some names \<Rightarrow>
          Some (x\<lparr> mExportFuncCount := length (getOperands FuncNameMetadata),
                   mExportFuncNameList := names \<rparr>))"

definition populateForEachMetadata ::
  "NamedMDNode option \<Rightarrow> NamedMDNode option \<Rightarrow> MetadataExtractor \<Rightarrow> MetadataExtractor option"
  where
  "populateForEachMetadata Names Signatures x =
     (if length (getOperands Names) \<noteq> length (getOperands Signatures) then None
      else
        (case copyOperands getStringOperand (getOperands Names) of
           None \<Rightarrow> None
         | Some names \<Rightarrow>
             (case copyOperands getIntOperand (getOperands Signatures) of
                None \<Rightarrow> None
              | Some sigs \<Rightarrow>
                  Some (x\<lparr> mExportForEachSignatureCount := length (getOperands Signatures),
                           mExportForEachNameList := names,
                           mExportForEachSignatureList := sigs \<rparr>))))"

definition populateObjectSlotMetadata ::
  "NamedMDNode option \<Rightarrow> MetadataExtractor \<Rightarrow> MetadataExtractor option" where
  "populateObjectSlotMetadata ObjectSlotMetadata x =
     (case copyOperands getIntOperand (getOperands ObjectSlotMetadata) of
        None \<Rightarrow> None
      | Some slots \<Rightarrow>
          Some (x\<lparr> mObjectSlotCount := length (getOperands ObjectSlotMetadata),
                   mObjectSlotList := slots \<rparr>))"

definition populatePragmaMetadata ::
  "NamedMDNode option \<Rightarrow> MetadataExtractor \<Rightarrow> MetadataExtractor option" where
  "populatePragmaMetadata PragmaMetadata x =
     (case copyOperands getPragmaOperand (getOperands PragmaMetadata) of
        None \<Rightarrow> None
      | Some pragmas \<Rightarrow>
          Some (x\<lparr> mPragmaCount := length (getOperands PragmaMetadata),
                   mPragmaKeyList := map fst pragmas,
                   mPragmaValueList := map snd pragmas \<rparr>))"

text \<open>
  Modelled from the spec: the three scalar entries are set during extraction; an entry
  that the module does not have leaves the default, 0 or Full.
\<close>

definition populateScalars :: "Module \<Rightarrow> MetadataExtractor \<Rightarrow> MetadataExtractor" where
  "populateScalars m x =
     x\<lparr> mCompilerVersion := (case compiler_version_md m of None \<Rightarrow> 0 | Some v \<Rightarrow> v),
        mOptimizationLevel := (case optimization_level_md m of None \<Rightarrow> 0 | Some v \<Rightarrow> v),
        mRSFloatPrecision :=
          (case float_precision_md m of None \<Rightarrow> RS_FP_Full | Some p \<Rightarrow> p) \<rparr>"

text \<open>
  Modelled from the spec: the module that \<open>extract()\<close> reads. A borrowed module is
  read as it is; raw bitcode is parsed first. The parser belongs to the external bitcode
  library and is a parameter: it takes the bytes and their size and returns the module,
  or \<open>None\<close> for malformed bitcode. An instance with neither has nothing to read.
\<close>

definition sourceModule ::
  "(u8 list \<Rightarrow> nat \<Rightarrow> Module option) \<Rightarrow> MetadataExtractor \<Rightarrow> Module option" where
  "sourceModule parse x =
     (case mModule x of
        Some m \<Rightarrow> Some m
      | None \<Rightarrow> (case mBitcode x of None \<Rightarrow> None | Some b \<Rightarrow> parse b (mBitcodeSize x)))"

text \<open>
  Modelled from the spec: the categories are populated one after the other, in the
  order in which the spec lists them, and the first helper that fails ends the
  extraction.
\<close>

definition populateAll :: "Module \<Rightarrow> MetadataExtractor \<Rightarrow> MetadataExtractor option" where
  "populateAll m x =
     (case populateVarNameMetadata (export_var_md m) x of
        None \<Rightarrow> None
      | Some x1 \<Rightarrow>
     (case populateFuncNameMetadata (export_func_md m) x1 of
        None \<Rightarrow> None
      | Some x2 \<Rightarrow>
     (case populateForEachMetadata (export_foreach_name_md m) (export_foreach_md m) x2 of
        None \<Rightarrow> None
      | Some x3 \<Rightarrow>
     (case populatePragmaMetadata (pragma_md m) x3 of
        None \<Rightarrow> None
      | Some x4 \<Rightarrow>
     (case populateObjectSlotMetadata (object_slot_md m) x4 of
        None \<Rightarrow> None
      | Some x5 \<Rightarrow> Some (populateScalars m x5))))))"

text \<open>
  Modelled from the spec: the body of \<open>extract()\<close>, which the header only declares. The
  result is the success flag and the instance after the call. Extraction populates all
  tables at once on success; on failure (no module to read, or a node of an unexpected
  shape) it returns \<open>false\<close> and leaves the instance as it was.
\<close>

definition "extract" ::
  "(u8 list \<Rightarrow> nat \<Rightarrow> Module option) \<Rightarrow> MetadataExtractor \<Rightarrow> bool \<times> MetadataExtractor" where
  "extract parse x =
     (case sourceModule parse x of
        None \<Rightarrow> (False, x)
      | Some m \<Rightarrow> (case populateAll m x of None \<Rightarrow> (False, x) | Some x' \<Rightarrow> (True, x')))"

subsection \<open>Concrete inputs\<close>

text \<open>
  Inputs on which the theorems below are exercised: a module with no metadata at all;
  a module with one exported kernel \<open>foo\<close> of signature \<open>0x0B\<close>, one pragma and two
  object slots; a module whose ForEach names node has three entries and whose
  signatures node has two; a parser that rejects every bitcode and one that accepts
  every bitcode as the module without metadata.
\<close>

definition bare_module :: Module where
  "bare_module =
     \<lparr> export_var_md = None, export_func_md = None, export_foreach_name_md = None,
       export_foreach_md = None, pragma_md = None, object_slot_md = None,
       compiler_version_md = None, optimization_level_md = None,
       float_precision_md = None \<rparr>"

definition foo_module :: Module where
  "foo_module =
     \<lparr> export_var_md = Some [MDString ''gColor''],
       export_func_md = None,
       export_foreach_name_md = Some [MDString ''foo''],
       export_foreach_md = Some [MDInt 0x0B],
       pragma_md = Some [MDTuple [MDString ''version'', MDString ''1'']],
       object_slot_md = Some [MDInt 0, MDInt 3],
       compiler_version_md = Some 17, optimization_level_md = Some 3,
       float_precision_md = Some RS_FP_Relaxed \<rparr>"

definition lopsided_module :: Module where
  "lopsided_module =
     bare_module
       \<lparr> export_foreach_name_md := Some [MDString ''root'', MDString ''foo'', MDString ''bar''],
         export_foreach_md := Some [MDInt 0x1F, MDInt 0x0B] \<rparr>"

definition reject_all :: "u8 list \<Rightarrow> nat \<Rightarrow> Module option" where
  "reject_all b n = None"

definition accept_bare :: "u8 list \<Rightarrow> nat \<Rightarrow> Module option" where
  "accept_bare b n = Some bare_module"

section \<open>Properties of the signature predicates\<close>

lemmas hasForEachSignature_defs =
  hasForEachSignatureIn_def hasForEachSignatureOut_def hasForEachSignatureUsrData_def
  hasForEachSignatureX_def hasForEachSignatureY_def hasForEachSignatureKernel_def

text \<open>
  A conjunction with a one-bit mask is non-zero exactly when that bit of the signature
  is set: the predicates read bits 0 to 5.
\<close>

lemma and_mask_bit:
  fixes s :: u32
  assumes "n < 32"
  shows "(s AND push_bit n 1 \<noteq> 0) = bit s n"
proof -
  have "s AND push_bit n 1 = (if bit s n then push_bit n 1 else 0)"
    by (rule bit_word_eqI) (auto simp add: bit_simps)
  moreover have "bit (push_bit n (1::u32)) n"
    using assms by (simp add: bit_simps)
  then have "push_bit n (1::u32) \<noteq> 0"
    using assms by auto
  ultimately show ?thesis by simp
qed

lemma hasForEachSignature_bits:
  "hasForEachSignatureIn s = bit s 0"
  "hasForEachSignatureOut s = bit s 1"
  "hasForEachSignatureUsrData s = bit s 2"
  "hasForEachSignatureX s = bit s 3"
  "hasForEachSignatureY s = bit s 4"
  "hasForEachSignatureKernel s = bit s 5"
  using and_mask_bit [of 0 s] and_mask_bit [of 1 s] and_mask_bit [of 2 s]
    and_mask_bit [of 3 s] and_mask_bit [of 4 s] and_mask_bit [of 5 s]
  by (simp_all add: hasForEachSignature_defs bool_of_u32_def)

text \<open>
  Claim C1. For every 32-bit signature \<open>s\<close>, \<open>hasForEachSignatureIn s\<close> is true exactly
  when \<open>s & 0x01\<close> is not zero, and likewise Out with \<open>0x02\<close>, UsrData with \<open>0x04\<close>, X
  with \<open>0x08\<close>, Y with \<open>0x10\<close> and Kernel with \<open>0x20\<close>. The predicates are total
  functions of the signature alone: the statement holds for every \<open>s\<close> and mentions
  no state.
\<close>

theorem hasForEachSignature_mask:
  "hasForEachSignatureIn s = (s AND 0x01 \<noteq> 0) \<and>
   hasForEachSignatureOut s = (s AND 0x02 \<noteq> 0) \<and>
   hasForEachSignatureUsrData s = (s AND 0x04 \<noteq> 0) \<and>
   hasForEachSignatureX s = (s AND 0x08 \<noteq> 0) \<and>
   hasForEachSignatureY s = (s AND 0x10 \<noteq> 0) \<and>
   hasForEachSignatureKernel s = (s AND 0x20 \<noteq> 0)"
  by (simp add: hasForEachSignature_defs bool_of_u32_def)

text \<open>
  Claim C2. On the signature \<open>0x0B\<close> the predicates In, Out and X are true and the
  predicates Y, UsrData and Kernel are false.
\<close>

theorem hasForEachSignature_0x0B:
  "hasForEachSignatureIn 0x0B \<and> hasForEachSignatureOut 0x0B \<and> hasForEachSignatureX 0x0B \<and>
   \<not> hasForEachSignatureY 0x0B \<and> \<not> hasForEachSignatureUsrData 0x0B \<and>
   \<not> hasForEachSignatureKernel 0x0B"
  by (simp add: hasForEachSignature_defs bool_of_u32_def)

lemma and_low_bits:
  fixes s t m :: u32
  assumes "s AND 0x3F = t AND 0x3F" and "0x3F AND m = m"
  shows "s AND m = t AND m"
proof -
  have "s AND m = (s AND 0x3F) AND m" using assms(2) by (simp add: and.assoc)
  also have "\<dots> = (t AND 0x3F) AND m" using assms(1) by simp
  also have "\<dots> = t AND m" using assms(2) by (simp add: and.assoc)
  finally show ?thesis .
qed

text \<open>
  Claim C3. Each predicate depends only on its own bit: two signatures \<open>s\<close> and \<open>t\<close>
  that agree under a predicate's mask get the same answer from that predicate. Every
  32-bit value is an input, and the bits outside the six masks affect no predicate:
  signatures that agree on the low six bits get the same answer from all six.
\<close>

theorem hasForEachSignature_own_bit:
  "(s AND 0x01 = t AND 0x01 \<longrightarrow> hasForEachSignatureIn s = hasForEachSignatureIn t) \<and>
   (s AND 0x02 = t AND 0x02 \<longrightarrow> hasForEachSignatureOut s = hasForEachSignatureOut t) \<and>
   (s AND 0x04 = t AND 0x04 \<longrightarrow> hasForEachSignatureUsrData s = hasForEachSignatureUsrData t) \<and>
   (s AND 0x08 = t AND 0x08 \<longrightarrow> hasForEachSignatureX s = hasForEachSignatureX t) \<and>
   (s AND 0x10 = t AND 0x10 \<longrightarrow> hasForEachSignatureY s = hasForEachSignatureY t) \<and>
   (s AND 0x20 = t AND 0x20 \<longrightarrow> hasForEachSignatureKernel s = hasForEachSignatureKernel t) \<and>
   (s AND 0x3F = t AND 0x3F \<longrightarrow>
      hasForEachSignatureIn s = hasForEachSignatureIn t \<and>
      hasForEachSignatureOut s = hasForEachSignatureOut t \<and>
      hasForEachSignatureUsrData s = hasForEachSignatureUsrData t \<and>
      hasForEachSignatureX s = hasForEachSignatureX t \<and>
      hasForEachSignatureY s = hasForEachSignatureY t \<and>
      hasForEachSignatureKernel s = hasForEachSignatureKernel t)"
  using and_low_bits [of s t "0x01"] and_low_bits [of s t "0x02"] and_low_bits [of s t "0x04"]
    and_low_bits [of s t "0x08"] and_low_bits [of s t "0x10"] and_low_bits [of s t "0x20"]
  by (simp add: hasForEachSignature_defs)

text \<open>
  The signatures \<open>0x0B\<close> and \<open>0xFFFFFFCB\<close> agree on the low six bits and differ in
  every bit above them.
\<close>

theorem hasForEachSignature_own_bit_witness:
  "(0x0B::u32) AND 0x01 = 0xFFFFFFCB AND 0x01 \<and>
   hasForEachSignatureIn 0x0B = hasForEachSignatureIn 0xFFFFFFCB \<and>
   (0x0B::u32) AND 0x02 = 0xFFFFFFCB AND 0x02 \<and>
   hasForEachSignatureOut 0x0B = hasForEachSignatureOut 0xFFFFFFCB \<and>
   (0x0B::u32) AND 0x04 = 0xFFFFFFCB AND 0x04 \<and>
   hasForEachSignatureUsrData 0x0B = hasForEachSignatureUsrData 0xFFFFFFCB \<and>
   (0x0B::u32) AND 0x08 = 0xFFFFFFCB AND 0x08 \<and>
   hasForEachSignatureX 0x0B = hasForEachSignatureX 0xFFFFFFCB \<and>
   (0x0B::u32) AND 0x10 = 0xFFFFFFCB AND 0x10 \<and>
   hasForEachSignatureY 0x0B = hasForEachSignatureY 0xFFFFFFCB \<and>
   (0x0B::u32) AND 0x20 = 0xFFFFFFCB AND 0x20 \<and>
   hasForEachSignatureKernel 0x0B = hasForEachSignatureKernel 0xFFFFFFCB \<and>
   (0x0B::u32) AND 0x3F = 0xFFFFFFCB AND 0x3F"
  using hasForEachSignature_own_bit [of "0x0B" "0xFFFFFFCB"] by simp

text \<open>
  Claim C9. The six masks are pairwise disjoint: on each of the one-bit signatures
  \<open>0x01\<close>, \<open>0x02\<close>, \<open>0x04\<close>, \<open>0x08\<close>, \<open>0x10\<close> and \<open>0x20\<close> exactly one of the six
  predicates is true. The answers are listed in the order In, Out, UsrData, X, Y, Kernel.
\<close>

theorem hasForEachSignature_one_bit:
  "(let flags = (\<lambda>s. [hasForEachSignatureIn s, hasForEachSignatureOut s,
                       hasForEachSignatureUsrData s, hasForEachSignatureX s,
                       hasForEachSignatureY s, hasForEachSignatureKernel s])
    in flags 0x01 = [True, False, False, False, False, False] \<and>
       flags 0x02 = [False, True, False, False, False, False] \<and>
       flags 0x04 = [False, False, True, False, False, False] \<and>
       flags 0x08 = [False, False, False, True, False, False] \<and>
       flags 0x10 = [False, False, False, False, True, False] \<and>
       flags 0x20 = [False, False, False, False, False, True])"
  by (simp add: hasForEachSignature_defs bool_of_u32_def)

text \<open>
  Claim C10. On the signature 0 all six predicates are false.
\<close>

theorem hasForEachSignature_zero:
  "\<not> hasForEachSignatureIn 0 \<and> \<not> hasForEachSignatureOut 0 \<and>
   \<not> hasForEachSignatureUsrData 0 \<and> \<not> hasForEachSignatureX 0 \<and>
   \<not> hasForEachSignatureY 0 \<and> \<not> hasForEachSignatureKernel 0"
  by (simp add: hasForEachSignature_defs bool_of_u32_def)

section \<open>Properties of extraction\<close>

lemmas getter_defs =
  getExportVarCount_def getExportVarNameList_def getExportFuncCount_def
  getExportFuncNameList_def getExportForEachSignatureCount_def
  getExportForEachSignatureList_def getExportForEachNameList_def getPragmaCount_def
  getPragmaKeyList_def getPragmaValueList_def getObjectSlotCount_def
  getObjectSlotList_def getCompilerVersion_def getOptimizationLevel_def
  getRSFloatPrecision_def

text \<open>
  A table copied from a node has one element for each operand of the node.
\<close>

lemma copyOperands_length:
  "copyOperands rd es = Some vs \<Longrightarrow> length vs = length es"
  by (induction es arbitrary: vs) (auto split: option.splits)

lemma copyOperands_Nil [simp]: "copyOperands rd (getOperands None) = Some []"
  by (simp add: getOperands_def)

lemmas populate_defs =
  populateVarNameMetadata_def populateFuncNameMetadata_def populateForEachMetadata_def
  populatePragmaMetadata_def populateObjectSlotMetadata_def

lemma populateAll_tables:
  assumes "populateAll m x = Some x'"
  shows "length (mExportVarNameList x') = mExportVarCount x'"
    and "length (mExportFuncNameList x') = mExportFuncCount x'"
    and "length (mExportForEachNameList x') = mExportForEachSignatureCount x'"
    and "length (mExportForEachSignatureList x') = mExportForEachSignatureCount x'"
    and "length (mPragmaKeyList x') = mPragmaCount x'"
    and "length (mPragmaValueList x') = mPragmaCount x'"
    and "length (mObjectSlotList x') = mObjectSlotCount x'"
  using assms
  by (auto simp add: populateAll_def populate_defs populateScalars_def
      split: option.splits if_splits dest: copyOperands_length)

lemma populateAll_source:
  assumes "populateAll m x = Some x'"
  shows "mModule x' = mModule x \<and> mBitcode x' = mBitcode x \<and> mBitcodeSize x' = mBitcodeSize x"
  using assms
  by (auto simp add: populateAll_def populate_defs populateScalars_def
      split: option.splits if_splits)

lemma populateAll_mismatch:
  assumes "length (getOperands (export_foreach_name_md m)) \<noteq> length (getOperands (export_foreach_md m))"
  shows "populateAll m x = None"
  using assms
  by (auto simp add: populateAll_def populateForEachMetadata_def split: option.splits)

lemma populateAll_absent:
  assumes "export_var_md m = None" "export_func_md m = None" "export_foreach_name_md m = None"
    "export_foreach_md m = None" "pragma_md m = None" "object_slot_md m = None"
  shows "populateAll m x =
    Some (populateScalars m
      (x\<lparr> mExportVarCount := 0, mExportVarNameList := [],
          mExportFuncCount := 0, mExportFuncNameList := [],
          mExportForEachSignatureCount := 0, mExportForEachNameList := [],
          mExportForEachSignatureList := [],
          mPragmaCount := 0, mPragmaKeyList := [], mPragmaValueList := [],
          mObjectSlotCount := 0, mObjectSlotList := [] \<rparr>))"
  using assms
  by (simp add: populateAll_def populate_defs getOperands_def)

lemmas input_defs = bare_module_def foo_module_def lopsided_module_def reject_all_def
  accept_bare_def MetadataExtractor_module_def MetadataExtractor_bitcode_def emptyTables_def

text \<open>
  The module with the kernel \<open>foo\<close>, extracted: every table and scalar, as computed.
\<close>

lemma extract_foo:
  "extract reject_all (MetadataExtractor_module (Some foo_module)) =
     (True, (MetadataExtractor_module (Some foo_module))
        \<lparr> mExportVarCount := 1, mExportVarNameList := [''gColor''],
          mExportForEachSignatureCount := 1, mExportForEachNameList := [''foo''],
          mExportForEachSignatureList := [0x0B],
          mPragmaCount := 1, mPragmaKeyList := [''version''], mPragmaValueList := [''1''],
          mObjectSlotCount := 2, mObjectSlotList := [0, 3],
          mCompilerVersion := 17, mOptimizationLevel := 3,
          mRSFloatPrecision := RS_FP_Relaxed \<rparr>)"
  by (simp add: extract_def sourceModule_def populateAll_def populate_defs populateScalars_def
      getOperands_def input_defs)

text \<open>
  Claim C4. After \<open>extract()\<close> has returned success, the ForEach name list and the
  ForEach signature list both have the length \<open>getExportForEachSignatureCount()\<close>, and
  the pragma key list and the pragma value list both have the length
  \<open>getPragmaCount()\<close>. This holds for every instance and every parser.
\<close>

theorem extract_parallel_lengths:
  assumes "fst (extract parse x)"
  shows "length (getExportForEachNameList (snd (extract parse x)))
           = getExportForEachSignatureCount (snd (extract parse x)) \<and>
         length (getExportForEachSignatureList (snd (extract parse x)))
           = getExportForEachSignatureCount (snd (extract parse x)) \<and>
         length (getPragmaKeyList (snd (extract parse x))) = getPragmaCount (snd (extract parse x)) \<and>
         length (getPragmaValueList (snd (extract parse x))) = getPragmaCount (snd (extract parse x))"
proof -
  from assms obtain m x' where "populateAll m x = Some x'" and "extract parse x = (True, x')"
    by (auto simp add: extract_def split: option.splits)
  then show ?thesis
    using populateAll_tables [of m x x'] by (simp add: getter_defs)
qed

text \<open>
  On the module with the kernel \<open>foo\<close> extraction succeeds, and the four lists and
  the two counts are all 1.
\<close>

theorem extract_parallel_lengths_witness:
  "fst (extract reject_all (MetadataExtractor_module (Some foo_module))) \<and>
   length (getExportForEachNameList (snd (extract reject_all (MetadataExtractor_module (Some foo_module))))) = 1 \<and>
   length (getExportForEachSignatureList (snd (extract reject_all (MetadataExtractor_module (Some foo_module))))) = 1 \<and>
   getExportForEachSignatureCount (snd (extract reject_all (MetadataExtractor_module (Some foo_module)))) = 1 \<and>
   length (getPragmaKeyList (snd (extract reject_all (MetadataExtractor_module (Some foo_module))))) = 1 \<and>
   length (getPragmaValueList (snd (extract reject_all (MetadataExtractor_module (Some foo_module))))) = 1 \<and>
   getPragmaCount (snd (extract reject_all (MetadataExtractor_module (Some foo_module)))) = 1"
proof -
  have ok: "fst (extract reject_all (MetadataExtractor_module (Some foo_module)))"
    by (simp add: extract_foo)
  have n: "getExportForEachSignatureCount
      (snd (extract reject_all (MetadataExtractor_module (Some foo_module)))) = 1"
    and p: "getPragmaCount
      (snd (extract reject_all (MetadataExtractor_module (Some foo_module)))) = 1"
    by (simp_all add: extract_foo getter_defs)
  show ?thesis using ok n p extract_parallel_lengths [OF ok] by simp
qed

text \<open>
  Claim C5. When the module that \<open>extract()\<close> reads has none of the five metadata
  categories (no node of exported variables, of exported functions, of ForEach names,
  of ForEach signatures, of pragmas, of object slots), \<open>extract()\<close> returns true and the
  five count accessors return 0. The module is the borrowed one or the one parsed from
  the bitcode; the tables of the instance before the call do not matter.
\<close>

theorem extract_absent_categories:
  assumes "sourceModule parse x = Some m"
    and "export_var_md m = None" and "export_func_md m = None"
    and "export_foreach_name_md m = None" and "export_foreach_md m = None"
    and "pragma_md m = None" and "object_slot_md m = None"
  shows "fst (extract parse x) \<and>
         getExportVarCount (snd (extract parse x)) = 0 \<and>
         getExportFuncCount (snd (extract parse x)) = 0 \<and>
         getExportForEachSignatureCount (snd (extract parse x)) = 0 \<and>
         getPragmaCount (snd (extract parse x)) = 0 \<and>
         getObjectSlotCount (snd (extract parse x)) = 0"
  using assms(1) populateAll_absent [OF assms(2-7), of x]
  by (simp add: extract_def populateScalars_def getter_defs)

text \<open>
  An instance over four bytes of bitcode, with a parser that yields the module without
  metadata.
\<close>

theorem extract_absent_categories_witness:
  "sourceModule accept_bare (MetadataExtractor_bitcode (Some [0x42, 0x43, 0xC0, 0xDE]) 4) = Some bare_module \<and>
   export_var_md bare_module = None \<and> export_func_md bare_module = None \<and>
   export_foreach_name_md bare_module = None \<and> export_foreach_md bare_module = None \<and>
   pragma_md bare_module = None \<and> object_slot_md bare_module = None \<and>
   fst (extract accept_bare (MetadataExtractor_bitcode (Some [0x42, 0x43, 0xC0, 0xDE]) 4)) \<and>
   getExportVarCount (snd (extract accept_bare (MetadataExtractor_bitcode (Some [0x42, 0x43, 0xC0, 0xDE]) 4))) = 0 \<and>
   getExportFuncCount (snd (extract accept_bare (MetadataExtractor_bitcode (Some [0x42, 0x43, 0xC0, 0xDE]) 4))) = 0 \<and>
   getExportForEachSignatureCount (snd (extract accept_bare (MetadataExtractor_bitcode (Some [0x42, 0x43, 0xC0, 0xDE]) 4))) = 0 \<and>
   getPragmaCount (snd (extract accept_bare (MetadataExtractor_bitcode (Some [0x42, 0x43, 0xC0, 0xDE]) 4))) = 0 \<and>
   getObjectSlotCount (snd (extract accept_bare (MetadataExtractor_bitcode (Some [0x42, 0x43, 0xC0, 0xDE]) 4))) = 0"
proof -
  have src: "sourceModule accept_bare (MetadataExtractor_bitcode (Some [0x42, 0x43, 0xC0, 0xDE]) 4)
      = Some bare_module"
    by (simp add: sourceModule_def MetadataExtractor_bitcode_def emptyTables_def accept_bare_def)
  have absent: "export_var_md bare_module = None" "export_func_md bare_module = None"
    "export_foreach_name_md bare_module = None" "export_foreach_md bare_module = None"
    "pragma_md bare_module = None" "object_slot_md bare_module = None"
    by (simp_all add: bare_module_def)
  show ?thesis using src absent extract_absent_categories [OF src absent] by simp
qed

text \<open>
  Claim C6. When the ForEach names node and the ForEach signatures node of the module
  that \<open>extract()\<close> reads have different lengths, \<open>extract()\<close> returns false.
\<close>

theorem extract_foreach_length_mismatch:
  assumes "sourceModule parse x = Some m"
    and "export_foreach_name_md m = Some names"
    and "export_foreach_md m = Some sigs"
    and "length names \<noteq> length sigs"
  shows "\<not> fst (extract parse x)"
  using assms populateAll_mismatch [of m x]
  by (simp add: extract_def getOperands_def)

text \<open>
  Three names against two signatures.
\<close>

theorem extract_foreach_length_mismatch_witness:
  "sourceModule reject_all (MetadataExtractor_module (Some lopsided_module)) = Some lopsided_module \<and>
   export_foreach_name_md lopsided_module = Some [MDString ''root'', MDString ''foo'', MDString ''bar''] \<and>
   export_foreach_md lopsided_module = Some [MDInt 0x1F, MDInt 0x0B] \<and>
   length [MDString ''root'', MDString ''foo'', MDString ''bar''] \<noteq> length [MDInt 0x1F, MDInt 0x0B] \<and>
   \<not> fst (extract reject_all (MetadataExtractor_module (Some lopsided_module)))"
proof -
  have src: "sourceModule reject_all (MetadataExtractor_module (Some lopsided_module))
      = Some lopsided_module"
    by (simp add: sourceModule_def MetadataExtractor_module_def emptyTables_def)
  have names: "export_foreach_name_md lopsided_module
      = Some [MDString ''root'', MDString ''foo'', MDString ''bar'']"
    and sigs: "export_foreach_md lopsided_module = Some [MDInt 0x1F, MDInt 0x0B]"
    by (simp_all add: lopsided_module_def)
  have len: "length [MDString ''root'', MDString ''foo'', MDString ''bar'']
      \<noteq> length [MDInt 0x1F, MDInt 0x0B]"
    by simp
  show ?thesis using src names sigs extract_foreach_length_mismatch [OF src names sigs len] by simp
qed

text \<open>
  Claim C7. An instance fresh from either constructor, on which \<open>extract()\<close> has not
  succeeded (it was not called, or it was called and returned false), answers every
  accessor with the default: the five counts are 0, the compiler version and the
  optimization level are 0, the float precision is \<open>RS_FP_Full\<close> (the enumerator of
  value 0), the lists are empty.
\<close>

theorem fresh_instance_defaults:
  assumes "x0 = MetadataExtractor_bitcode bitcode bitcodeSize \<or> x0 = MetadataExtractor_module module"
    and "x = x0 \<or> (\<not> fst (extract parse x0) \<and> x = snd (extract parse x0))"
  shows "getExportVarCount x = 0 \<and> getExportFuncCount x = 0 \<and>
         getExportForEachSignatureCount x = 0 \<and> getPragmaCount x = 0 \<and>
         getObjectSlotCount x = 0 \<and>
         getCompilerVersion x = 0 \<and> getOptimizationLevel x = 0 \<and>
         getRSFloatPrecision x = RS_FP_Full \<and>
         RSFloatPrecision_value (getRSFloatPrecision x) = 0 \<and>
         getExportVarNameList x = [] \<and> getExportFuncNameList x = [] \<and>
         getExportForEachNameList x = [] \<and> getExportForEachSignatureList x = [] \<and>
         getPragmaKeyList x = [] \<and> getPragmaValueList x = [] \<and> getObjectSlotList x = []"
proof -
  have "snd (extract parse x0) = x0" if "\<not> fst (extract parse x0)"
    using that by (simp add: extract_def split: option.splits)
  with assms(2) have "x = x0" by auto
  with assms(1) show ?thesis
    by (auto simp add: MetadataExtractor_bitcode_def MetadataExtractor_module_def
        emptyTables_def getter_defs)
qed

text \<open>
  An instance over bitcode that the parser rejects, after the failed extraction, and an
  instance over a module before any extraction.
\<close>

theorem fresh_instance_defaults_witness:
  "\<not> fst (extract reject_all (MetadataExtractor_bitcode (Some [0x42, 0x43]) 2)) \<and>
   getExportVarCount (snd (extract reject_all (MetadataExtractor_bitcode (Some [0x42, 0x43]) 2))) = 0 \<and>
   getRSFloatPrecision (snd (extract reject_all (MetadataExtractor_bitcode (Some [0x42, 0x43]) 2))) = RS_FP_Full \<and>
   getPragmaCount (MetadataExtractor_module (Some foo_module)) = 0 \<and>
   getCompilerVersion (MetadataExtractor_module (Some foo_module)) = 0"
proof -
  have fails: "\<not> fst (extract reject_all (MetadataExtractor_bitcode (Some [0x42, 0x43]) 2))"
    by (simp add: extract_def sourceModule_def MetadataExtractor_bitcode_def emptyTables_def
        reject_all_def)
  show ?thesis
    using fails
      fresh_instance_defaults [of "MetadataExtractor_bitcode (Some [0x42, 0x43]) 2" "Some [0x42, 0x43]" 2 None
          "snd (extract reject_all (MetadataExtractor_bitcode (Some [0x42, 0x43]) 2))" reject_all]
      fresh_instance_defaults [of "MetadataExtractor_module (Some foo_module)" None 0 "Some foo_module"
          "MetadataExtractor_module (Some foo_module)" reject_all]
    by simp
qed

text \<open>
  Claim C8. \<open>extract()\<close> writes nothing but the tables and scalars of the instance:
  whatever the parser and the instance, and whether the call succeeds or fails, the
  borrowed module with all its metadata nodes, the bitcode and its size are after the
  call what they were before.
\<close>

theorem extract_keeps_source:
  "mModule (snd (extract parse x)) = mModule x \<and>
   mBitcode (snd (extract parse x)) = mBitcode x \<and>
   mBitcodeSize (snd (extract parse x)) = mBitcodeSize x"
proof (cases "sourceModule parse x")
  case None
  then show ?thesis by (simp add: extract_def)
next
  case (Some m)
  show ?thesis
  proof (cases "populateAll m x")
    case None
    with Some show ?thesis by (simp add: extract_def)
  next
    case (Some x')
    with \<open>sourceModule parse x = Some m\<close> populateAll_source [OF Some]
    show ?thesis by (simp add: extract_def)
  qed
qed

end
